theory Spec2Isabelle
  imports Main "HOL-Library.Char_ord" "HOL-Library.List_Lexorder"
begin

section \<open>Data model\<close>

text \<open>
  The program is a pandas pipeline (\<^verbatim>\<open>src/app.py\<close>): two spreadsheets are read into
  data frames, cleaned, joined on the IP address and counted per node; a Dash callback
  filters the resulting table. A data frame is modelled as the list of its rows in index
  order, each row a record of the columns the code names after its \<^verbatim>\<open>rename\<close>; the
  renaming and the dropping of unused columns relabel the frame and leave its rows alone.
  The sheets have the fixed layout the code addresses by name, so every named column exists.

  A cell of a value column is missing (pandas \<^verbatim>\<open>NaN\<close>, \<^verbatim>\<open>None\<close>, \<^verbatim>\<open>NaT\<close>: all are
  \<^verbatim>\<open>isna\<close>), a text, an integer, a float (of an arbitrary carrier \<open>'n\<close>: the code never
  computes on it) or a timestamp (nanoseconds since the epoch). The two key columns
  \<^verbatim>\<open>'Node Alias'\<close> and \<^verbatim>\<open>'IP Address'\<close> hold text or are missing (\<open>None\<close>);
  \<^verbatim>\<open>read_excel\<close> reads an empty cell and an empty text as missing.
\<close>

datatype 'n cell = NA | Text string | Integer int | Float 'n | Timestamp int

datatype error =
    KeyError string
  | LabelsNotFound "nat list"
  | TypeError
  | ValueError
  | FileNotFoundError string

record node =
  Node_Alias :: "string option"

record host = node +
  IP_Address :: "string option"

text \<open>A row of the alarm log (\<^verbatim>\<open>df1\<close>) and of the availability report (\<^verbatim>\<open>df2\<close>).\<close>

record 'n alarm = host +
  Event :: "'n cell"
  Alarm_Time :: "'n cell"

record 'n avail = host +
  Availability :: "'n cell"
  Latency :: "'n cell"
  Packet_Loss :: "'n cell"

text \<open>
  A row of \<^verbatim>\<open>merged_df\<close>: the alarm row and the value of the column \<^verbatim>\<open>'Availability'\<close>
  the join attached to it.
\<close>

type_synonym 'n joined = "'n alarm \<times> 'n cell"

text \<open>A row of the table \<^verbatim>\<open>downtime_count\<close>: columns \<^verbatim>\<open>'Node Alias'\<close> and \<^verbatim>\<open>'Downtime Count'\<close>.\<close>

record summary = node +
  Downtime_Count :: int

definition and_then :: "error + 'a \<Rightarrow> ('a \<Rightarrow> error + 'b) \<Rightarrow> error + 'b" where
  "and_then r f = (case r of Inl e \<Rightarrow> Inl e | Inr x \<Rightarrow> f x)"

section \<open>File locator\<close>

text \<open>
  \<^verbatim>\<open>max(matched_files, key=...)\<close>: Python takes the first element and its key, then
  goes through the rest in order, computes the key of each element and replaces the
  element kept only by one with a strictly greater key, so among equal keys the first
  wins. On an empty list it raises \<^verbatim>\<open>ValueError\<close>; an error the key function raises on an
  element ends the search and escapes.
\<close>

fun max_key_loop :: "('a \<Rightarrow> error + 'k::linorder) \<Rightarrow> 'a \<Rightarrow> 'k \<Rightarrow> 'a list \<Rightarrow> error + 'a" where
  "max_key_loop key best best_val [] = Inr best"
| "max_key_loop key best best_val (x # xs) =
     (case key x of
        Inl e \<Rightarrow> Inl e
      | Inr v \<Rightarrow> if best_val < v then max_key_loop key x v xs else max_key_loop key best best_val xs)"

fun max_key :: "('a \<Rightarrow> error + 'k::linorder) \<Rightarrow> 'a list \<Rightarrow> error + 'a" where
  "max_key key [] = Inl ValueError"
| "max_key key (x # xs) = (case key x of Inl e \<Rightarrow> Inl e | Inr v \<Rightarrow> max_key_loop key x v xs)"

text \<open>\<^verbatim>\<open>os.path.join\<close> of two components (POSIX).\<close>

definition path_join :: "string \<Rightarrow> string \<Rightarrow> string" where
  "path_join a b =
     (if b \<noteq> [] \<and> hd b = CHR ''/'' then b
      else if a = [] \<or> last a = CHR ''/'' then a @ b
      else a @ ''/'' @ b)"

text \<open>
  \<^verbatim>\<open>get_latest_file(pattern)\<close>. The file system and the regular-expression library are
  outside the program: \<open>files\<close> is what \<^verbatim>\<open>os.listdir(downloads_path)\<close> returns,
  \<open>re_match pattern f\<close> says that \<^verbatim>\<open>re.match(pattern, f)\<close> is a match (\<^verbatim>\<open>re.match\<close> anchors
  the pattern at the start of the name and lets the name go on after it), and
  \<open>getctime p\<close> is the time \<^verbatim>\<open>os.path.getctime(p)\<close> returns, or the error it raises when
  the path cannot be examined (\<^verbatim>\<open>OSError\<close>, for a dangling symbolic link its subclass
  \<^verbatim>\<open>FileNotFoundError\<close>). The pattern is a regular expression the library accepts.
\<close>

definition get_latest_file ::
  "(string \<Rightarrow> string \<Rightarrow> bool) \<Rightarrow> (string \<Rightarrow> error + 'k::linorder) \<Rightarrow> string \<Rightarrow> string list \<Rightarrow> string
     \<Rightarrow> error + string" where
  "get_latest_file re_match getctime downloads_path files pattern =
     (let matched_files = filter (re_match pattern) files in
      if matched_files \<noteq> [] then
        and_then (max_key (\<lambda>f. getctime (path_join downloads_path f)) matched_files)
          (\<lambda>latest_file. Inr (path_join downloads_path latest_file))
      else Inl (FileNotFoundError ''No files matching the pattern were found.''))"

section \<open>Cleaning the two data sets\<close>

text \<open>
  \<^verbatim>\<open>pd.to_datetime(column, errors='coerce')\<close> and \<^verbatim>\<open>pd.to_numeric(column, errors='coerce')\<close>
  are library functions. \<open>to_datetime col\<close> is what pandas does with the column \<open>col\<close>:
  either it raises (with \<^verbatim>\<open>errors='coerce'\<close> it still does for some columns, such as texts
  with differing UTC offsets under pandas 3), or it converts, and then the result gives
  each cell of the column its timestamp, \<open>None\<close> where pandas gives \<^verbatim>\<open>NaT\<close> (the conversion
  comes with the column because pandas may infer one format for all of it).
  \<open>to_numeric c\<close> is the number of a cell, \<open>None\<close> where pandas gives \<^verbatim>\<open>NaN\<close>.
\<close>

definition coerce_datetime :: "('n cell \<Rightarrow> int option) \<Rightarrow> 'n cell \<Rightarrow> 'n cell" where
  "coerce_datetime conv c = (case conv c of None \<Rightarrow> NA | Some t \<Rightarrow> Timestamp t)"

definition coerce_numeric :: "('n cell \<Rightarrow> 'n option) \<Rightarrow> 'n cell \<Rightarrow> 'n cell" where
  "coerce_numeric to_numeric c = (case to_numeric c of None \<Rightarrow> NA | Some x \<Rightarrow> Float x)"

text \<open>
  \<^verbatim>\<open>data1_clean\<close>. \<open>df0\<close> is the frame \<^verbatim>\<open>pd.read_excel(file1_path, skiprows=5)\<close> returns.
  The function has no \<^verbatim>\<open>try\<close>: what \<^verbatim>\<open>pd.to_datetime\<close> raises escapes it.
\<close>

definition data1_clean ::
  "('n cell list \<Rightarrow> error + ('n cell \<Rightarrow> int option)) \<Rightarrow> 'n alarm list \<Rightarrow> error + 'n alarm list" where
  "data1_clean to_datetime df0 =
     (let df = filter (\<lambda>r. Node_Alias r \<noteq> None \<and> Alarm_Time r \<noteq> NA) df0 in
      case to_datetime (map Alarm_Time df) of
        Inl e \<Rightarrow> Inl e
      | Inr conv \<Rightarrow>
          let df = map (\<lambda>r. r\<lparr>Alarm_Time := coerce_datetime conv (Alarm_Time r)\<rparr>) df;
              df = filter (\<lambda>r. Alarm_Time r \<noteq> NA) df
          in Inr df)"

text \<open>
  \<^verbatim>\<open>data2_clean\<close>. \<open>df0\<close> is the frame \<^verbatim>\<open>pd.read_excel(file2_path)\<close> returns, with the
  default index \<open>0, 1, 2, \<dots>\<close>. \<^verbatim>\<open>df.drop([0, 1, 2, 3, 4], axis=0)\<close> drops by label and
  raises \<^verbatim>\<open>KeyError\<close> for the labels the index does not have.
\<close>

definition data2_clean ::
  "('n cell \<Rightarrow> 'n option) \<Rightarrow> 'n avail list \<Rightarrow> error + 'n avail list" where
  "data2_clean to_numeric df0 =
     (let missing = filter (\<lambda>i. length df0 \<le> i) [0, 1, 2, 3, 4] in
      if missing \<noteq> [] then Inl (LabelsNotFound missing)
      else
        let df = drop 5 df0;
            df = map (\<lambda>r. r\<lparr>Packet_Loss := coerce_numeric to_numeric (Packet_Loss r)\<rparr>) df;
            df = map (\<lambda>r. r\<lparr>Availability := coerce_numeric to_numeric (Availability r)\<rparr>) df;
            df = map (\<lambda>r. r\<lparr>Latency := coerce_numeric to_numeric (Latency r)\<rparr>) df;
            df = filter (\<lambda>r. Packet_Loss r \<noteq> NA \<and> Availability r \<noteq> NA \<and> Latency r \<noteq> NA) df
        in Inr df)"

section \<open>Join and aggregation\<close>

text \<open>
  The column \<^verbatim>\<open>'IP Address'\<close> of a frame has the dtype pandas gave it when it read the
  sheet, and the row filters of the cleaners keep it: \<^verbatim>\<open>float64\<close> when every cell of the
  sheet's column is empty, \<^verbatim>\<open>object\<close> when the column holds a text.
\<close>

datatype dtype = Object_dtype | Float64_dtype

definition has_text :: "'a host_scheme list \<Rightarrow> bool" where
  "has_text df = list_ex (\<lambda>r. IP_Address r \<noteq> None) df"

text \<open>
  \<^verbatim>\<open>pd.merge(df1_cleaned, df2_cleaned[['IP Address', 'Availability']], on='IP Address', how='left')\<close>.
  pandas first compares the key columns: when both frames have rows, one key column is
  \<^verbatim>\<open>float64\<close> and the other holds a text, it raises \<^verbatim>\<open>ValueError\<close> (merging on float64 and
  object columns). Otherwise the result has the left rows in their order, each once per
  right row with an equal key, in the right frame's order, and once with a missing value
  when no right row has the key. pandas matches a missing key with a missing key.
  \<open>left_dtype\<close> and \<open>right_dtype\<close> are the dtypes of the two key columns.
\<close>

definition merged_df ::
  "dtype \<Rightarrow> 'n alarm list \<Rightarrow> dtype \<Rightarrow> 'n avail list \<Rightarrow> error + 'n joined list" where
  "merged_df left_dtype df1_cleaned right_dtype df2_cleaned =
     (if left_dtype = Float64_dtype \<and> df1_cleaned \<noteq> [] \<and> has_text df2_cleaned \<or>
         right_dtype = Float64_dtype \<and> df2_cleaned \<noteq> [] \<and> has_text df1_cleaned
      then Inl ValueError
      else Inr (concat (map (\<lambda>l.
        case filter (\<lambda>r. IP_Address r = IP_Address l) df2_cleaned of
          [] \<Rightarrow> [(l, NA)]
        | ms \<Rightarrow> map (\<lambda>r. (l, Availability r)) ms) df1_cleaned)))"

text \<open>
  \<^verbatim>\<open>merged_df.groupby('Node Alias')['Alarm Time'].nunique().reset_index(name='Downtime Count')\<close>:
  one group per key that is not missing, the groups in sorted key order; \<^verbatim>\<open>nunique\<close> counts
  the distinct values of the group that are not missing.
\<close>

definition nunique :: "'n cell list \<Rightarrow> int" where
  "nunique vs = int (length (remdups (filter (\<lambda>v. v \<noteq> NA) vs)))"

definition downtime_count :: "'n joined list \<Rightarrow> summary list" where
  "downtime_count merged =
     map (\<lambda>k. \<lparr>Node_Alias = Some k,
               Downtime_Count = nunique (map (\<lambda>j. Alarm_Time (fst j))
                                  (filter (\<lambda>j. Node_Alias (fst j) = Some k) merged))\<rparr>)
       (sort (remdups (concat (map (\<lambda>j. case Node_Alias (fst j) of None \<Rightarrow> [] | Some k \<Rightarrow> [k]) merged))))"

text \<open>
  The module-level code from the two sheets to the table (the two calls of the cleaners,
  the join and the count): the first error ends it. \<open>key_dtype\<close> is the dtype the column
  \<^verbatim>\<open>'IP Address'\<close> gets when the sheet is read.
\<close>

definition key_dtype :: "'a host_scheme list \<Rightarrow> dtype" where
  "key_dtype df0 = (if df0 \<noteq> [] \<and> \<not> has_text df0 then Float64_dtype else Object_dtype)"

definition pipeline ::
  "('n cell list \<Rightarrow> error + ('n cell \<Rightarrow> int option)) \<Rightarrow> ('n cell \<Rightarrow> 'n option)
     \<Rightarrow> 'n alarm list \<Rightarrow> 'n avail list \<Rightarrow> error + summary list" where
  "pipeline to_datetime to_numeric sheet1 sheet2 =
     and_then (data1_clean to_datetime sheet1) (\<lambda>df1_cleaned.
     and_then (data2_clean to_numeric sheet2) (\<lambda>df2_cleaned.
     and_then (merged_df (key_dtype sheet1) df1_cleaned (key_dtype sheet2) df2_cleaned) (\<lambda>merged.
     Inr (downtime_count merged))))"

section \<open>The filter callback\<close>

text \<open>
  Data frames are objects: \<^verbatim>\<open>filtered_df = downtime_count\<close> makes the local name refer to
  the object the global name refers to, and \<^verbatim>\<open>df[mask]\<close> builds a new object. The store
  maps the addresses below \<open>next_free\<close> to frames; \<open>downtime_count_var\<close> is the address the
  module-level name \<^verbatim>\<open>downtime_count\<close> is bound to.
\<close>

record state =
  heap :: "nat \<Rightarrow> summary list"
  next_free :: nat
  downtime_count_var :: nat

datatype series = Object_col "string option list" | Int64_col "int list"

text \<open>\<^verbatim>\<open>df[name]\<close> on a frame with the columns of \<^verbatim>\<open>downtime_count\<close>.\<close>

definition getitem_column :: "string \<Rightarrow> summary list \<Rightarrow> error + series" where
  "getitem_column name df =
     (if name = ''Node Alias'' then Inr (Object_col (map Node_Alias df))
      else if name = ''Downtime Count'' then Inr (Int64_col (map Downtime_Count df))
      else Inl (KeyError name))"

text \<open>Comparing a column with an integer: element by element on numbers, \<^verbatim>\<open>TypeError\<close> on text.\<close>

definition series_le :: "series \<Rightarrow> int \<Rightarrow> error + bool list" where
  "series_le c k = (case c of Int64_col xs \<Rightarrow> Inr (map (\<lambda>x. x \<le> k) xs) | Object_col _ \<Rightarrow> Inl TypeError)"

definition series_gt :: "series \<Rightarrow> int \<Rightarrow> error + bool list" where
  "series_gt c k = (case c of Int64_col xs \<Rightarrow> Inr (map (\<lambda>x. k < x) xs) | Object_col _ \<Rightarrow> Inl TypeError)"

text \<open>\<^verbatim>\<open>m1 & m2\<close>; the left operand is evaluated first.\<close>

definition mask_and :: "error + bool list \<Rightarrow> error + bool list \<Rightarrow> error + bool list" where
  "mask_and m1 m2 = and_then m1 (\<lambda>b1. and_then m2 (\<lambda>b2. Inr (map (\<lambda>(x, y). x \<and> y) (zip b1 b2))))"

text \<open>A new frame object: it takes the free address, and no other address changes.\<close>

definition new_frame :: "summary list \<Rightarrow> state \<Rightarrow> state" where
  "new_frame df s = s\<lparr>heap := (heap s)(next_free s := df), next_free := Suc (next_free s)\<rparr>"

text \<open>
  \<^verbatim>\<open>df[mask]\<close> where \<open>df\<close> is the frame at address \<open>f\<close> and \<open>mk\<close> computes the mask from it:
  when the mask is computed, the rows it selects become a new frame, whose address is
  returned.
\<close>

definition getitem_mask ::
  "(summary list \<Rightarrow> error + bool list) \<Rightarrow> nat \<Rightarrow> state \<Rightarrow> (error + nat) \<times> state" where
  "getitem_mask mk f s =
     (case mk (heap s f) of
        Inl e \<Rightarrow> (Inl e, s)
      | Inr keep \<Rightarrow>
          (Inr (next_free s), new_frame (map fst (filter snd (zip (heap s f) keep))) s))"

text \<open>Python truth of a date the date picker passes: \<^verbatim>\<open>None\<close> and the empty string are false.\<close>

definition truthy :: "string option \<Rightarrow> bool" where
  "truthy d = (case d of None \<Rightarrow> False | Some v \<Rightarrow> v \<noteq> [])"

text \<open>
  \<^verbatim>\<open>filter_data\<close>. \<open>date_mask start_date end_date c\<close> stands for the library's part of
  \<^verbatim>\<open>(c >= pd.to_datetime(start_date)) & (c <= pd.to_datetime(end_date))\<close> on a column \<open>c\<close>
  that the lookup \<^verbatim>\<open>filtered_df['Alarm Time']\<close> has returned. \<^verbatim>\<open>to_dict('records')\<close> gives
  the rows of the frame as a list.
\<close>

definition filter_data ::
  "(string option \<Rightarrow> string option \<Rightarrow> series \<Rightarrow> error + bool list) \<Rightarrow> state \<Rightarrow> int option
     \<Rightarrow> string option \<Rightarrow> string option \<Rightarrow> string option \<Rightarrow> (error + summary list) \<times> state" where
  "filter_data date_mask s n_clicks start_date end_date downtime_value =
     (if n_clicks = None then (Inr (heap s (downtime_count_var s)), s)
      else
        let filtered_df = downtime_count_var s;
            bucket =
              (if downtime_value = Some ''1-3'' then
                 getitem_mask (\<lambda>df. and_then (getitem_column ''Downtime Count'' df) (\<lambda>c. series_le c 3))
                   filtered_df s
               else if downtime_value = Some ''4-5'' then
                 getitem_mask (\<lambda>df. mask_and
                     (and_then (getitem_column ''Downtime Count'' df) (\<lambda>c. series_gt c 3))
                     (and_then (getitem_column ''Downtime Count'' df) (\<lambda>c. series_le c 5)))
                   filtered_df s
               else if downtime_value = Some ''>5'' then
                 getitem_mask (\<lambda>df. and_then (getitem_column ''Downtime Count'' df) (\<lambda>c. series_gt c 5))
                   filtered_df s
               else if downtime_value = Some ''>10'' then
                 getitem_mask (\<lambda>df. and_then (getitem_column ''Downtime Count'' df) (\<lambda>c. series_gt c 10))
                   filtered_df s
               else (Inr filtered_df, s))
        in case bucket of
             (Inl e, s1) \<Rightarrow> (Inl e, s1)
           | (Inr filtered_df, s1) \<Rightarrow>
               if truthy start_date \<and> truthy end_date then
                 (case getitem_mask
                         (\<lambda>df. and_then (getitem_column ''Alarm Time'' df) (date_mask start_date end_date))
                         filtered_df s1 of
                    (Inl e, s2) \<Rightarrow> (Inl e, s2)
                  | (Inr filtered_df, s2) \<Rightarrow> (Inr (heap s2 filtered_df), s2))
               else (Inr (heap s1 filtered_df), s1))"

text \<open>The state after the module has run: the table is the only frame the callback can reach.\<close>

definition init_state :: "summary list \<Rightarrow> state" where
  "init_state table = \<lparr>heap = (\<lambda>_. [])(0 := table), next_free = 1, downtime_count_var = 0\<rparr>"

section \<open>Example data\<close>

text \<open>
  Library functions for the examples: numbers are numeric and everything else is not; a
  timestamp, and one spelled-out date, are dates and everything else is not. The second
  date conversion does as pandas 3 does on two texts with differing UTC offsets: it
  raises when the column holds both. The examples carry floats as integers.
\<close>

definition example_to_numeric :: "int cell \<Rightarrow> int option" where
  "example_to_numeric c = (case c of Integer i \<Rightarrow> Some i | Float x \<Rightarrow> Some x | _ \<Rightarrow> None)"

definition example_conv :: "int cell \<Rightarrow> int option" where
  "example_conv c =
     (case c of
        Timestamp t \<Rightarrow> Some t
      | Text v \<Rightarrow> if v = ''1970-01-01 00:00:01'' then Some 1000000000 else None
      | _ \<Rightarrow> None)"

definition example_to_datetime :: "int cell list \<Rightarrow> error + (int cell \<Rightarrow> int option)" where
  "example_to_datetime col = Inr example_conv"



definition example_alarm_sheet :: "int alarm list" where
  "example_alarm_sheet =
     [\<lparr>Node_Alias = Some ''N1'', IP_Address = Some ''10.0.0.1'', Event = Text ''Down'', Alarm_Time = Timestamp 100\<rparr>,
      \<lparr>Node_Alias = None, IP_Address = Some ''10.0.0.2'', Event = Text ''Down'', Alarm_Time = Timestamp 200\<rparr>,
      \<lparr>Node_Alias = Some ''N2'', IP_Address = Some ''10.0.0.2'', Event = Text ''Down'', Alarm_Time = Text ''yesterday''\<rparr>,
      \<lparr>Node_Alias = Some ''N1'', IP_Address = Some ''10.0.0.1'', Event = Text ''Loss'', Alarm_Time = Timestamp 100\<rparr>,
      \<lparr>Node_Alias = Some ''N3'', IP_Address = None, Event = NA, Alarm_Time = NA\<rparr>,
      \<lparr>Node_Alias = Some ''N0'', IP_Address = Some ''10.0.0.9'', Event = Text ''Down'', Alarm_Time = Text ''1970-01-01 00:00:01''\<rparr>]"

definition example_header_row :: "int avail" where
  "example_header_row =
     \<lparr>Node_Alias = Some ''Report'', IP_Address = None, Availability = NA, Latency = NA, Packet_Loss = NA\<rparr>"

definition example_avail_sheet :: "int avail list" where
  "example_avail_sheet =
     replicate 5 example_header_row @
     [\<lparr>Node_Alias = Some ''N1'', IP_Address = Some ''10.0.0.1'', Availability = Integer 99, Latency = Integer 5, Packet_Loss = Integer 0\<rparr>,
      \<lparr>Node_Alias = Some ''N2'', IP_Address = Some ''10.0.0.2'', Availability = Text ''n/a'', Latency = Integer 7, Packet_Loss = Integer 1\<rparr>,
      \<lparr>Node_Alias = Some ''N1'', IP_Address = Some ''10.0.0.1'', Availability = Integer 98, Latency = Integer 6, Packet_Loss = Integer 0\<rparr>]"

text \<open>Two cleaned frames; the availability frame has one IP address twice.\<close>

definition example_alarms :: "int alarm list" where
  "example_alarms =
     [\<lparr>Node_Alias = Some ''N1'', IP_Address = Some ''10.0.0.1'', Event = Text ''Down'', Alarm_Time = Timestamp 100\<rparr>,
      \<lparr>Node_Alias = Some ''N1'', IP_Address = Some ''10.0.0.1'', Event = Text ''Loss'', Alarm_Time = Timestamp 100\<rparr>,
      \<lparr>Node_Alias = Some ''N0'', IP_Address = Some ''10.0.0.9'', Event = Text ''Down'', Alarm_Time = Timestamp 1000000000\<rparr>]"

definition example_availability :: "int avail list" where
  "example_availability =
     [\<lparr>Node_Alias = Some ''N1'', IP_Address = Some ''10.0.0.1'', Availability = Float 99, Latency = Float 5, Packet_Loss = Float 0\<rparr>,
      \<lparr>Node_Alias = Some ''N1'', IP_Address = Some ''10.0.0.1'', Availability = Float 98, Latency = Float 6, Packet_Loss = Float 0\<rparr>]"

text \<open>The join of the two frames.\<close>

definition example_merged :: "int joined list" where
  "example_merged =
     [(\<lparr>Node_Alias = Some ''N1'', IP_Address = Some ''10.0.0.1'', Event = Text ''Down'', Alarm_Time = Timestamp 100\<rparr>, Float 99),
      (\<lparr>Node_Alias = Some ''N1'', IP_Address = Some ''10.0.0.1'', Event = Text ''Down'', Alarm_Time = Timestamp 100\<rparr>, Float 98),
      (\<lparr>Node_Alias = Some ''N1'', IP_Address = Some ''10.0.0.1'', Event = Text ''Loss'', Alarm_Time = Timestamp 100\<rparr>, Float 99),
      (\<lparr>Node_Alias = Some ''N1'', IP_Address = Some ''10.0.0.1'', Event = Text ''Loss'', Alarm_Time = Timestamp 100\<rparr>, Float 98),
      (\<lparr>Node_Alias = Some ''N0'', IP_Address = Some ''10.0.0.9'', Event = Text ''Down'', Alarm_Time = Timestamp 1000000000\<rparr>, NA)]"


text \<open>An alarm sheet without any IP address.\<close>

definition example_alarm_sheet_no_ip :: "int alarm list" where
  "example_alarm_sheet_no_ip =
     [\<lparr>Node_Alias = Some ''N1'', IP_Address = None, Event = Text ''Down'', Alarm_Time = Timestamp 100\<rparr>]"

definition example_table :: "summary list" where
  "example_table =
     [\<lparr>Node_Alias = Some ''A'', Downtime_Count = 2\<rparr>, \<lparr>Node_Alias = Some ''B'', Downtime_Count = 4\<rparr>,
      \<lparr>Node_Alias = Some ''C'', Downtime_Count = 6\<rparr>, \<lparr>Node_Alias = Some ''D'', Downtime_Count = 11\<rparr>]"

definition example_date_mask :: "string option \<Rightarrow> string option \<Rightarrow> series \<Rightarrow> error + bool list" where
  "example_date_mask start_date end_date c = Inl TypeError"

text \<open>The times of three paths; a fourth path is a dangling link and cannot be examined.\<close>

definition example_getctime :: "string \<Rightarrow> error + nat" where
  "example_getctime p =
     (if p = ''/dl/alarms_1.xlsx'' then Inr 30
      else if p = ''/dl/alarms_2.xlsx'' then Inr 50
      else if p = ''/dl/alarms_link.xlsx'' then Inl (FileNotFoundError ''No such file or directory'')
      else Inr 70)"

definition example_re_match :: "string \<Rightarrow> string \<Rightarrow> bool" where
  "example_re_match pattern f = (take (length pattern) f = pattern)"

section \<open>Properties of the file locator\<close>

lemma max_key_loop_readable:
  "key b = Inr bv \<Longrightarrow> \<forall>x \<in> set xs. \<exists>t. key x = Inr t \<Longrightarrow>
     \<exists>m \<in> set (b # xs). \<exists>tm. max_key_loop key b bv xs = Inr m \<and> key m = Inr tm \<and>
        (\<forall>f \<in> set (b # xs). \<exists>t. key f = Inr t \<and> t \<le> tm)"
  for key :: "'a \<Rightarrow> error + 'k::linorder"
proof (induction xs arbitrary: b bv)
  case Nil
  then show ?case by simp
next
  case (Cons x xs)
  from Cons.prems(2) obtain v where v: "key x = Inr v" by auto
  from Cons.prems(2) have rest: "\<forall>y \<in> set xs. \<exists>t. key y = Inr t" by simp
  show ?case
  proof (cases "bv < v")
    case True
    from Cons.IH [OF v rest] obtain m tm where m: "m \<in> set (x # xs)"
      "max_key_loop key x v xs = Inr m" "key m = Inr tm"
      "\<forall>f \<in> set (x # xs). \<exists>t. key f = Inr t \<and> t \<le> tm"
      by blast
    from m(4) v have "v \<le> tm" by auto
    with True have "bv \<le> tm" by simp
    with m Cons.prems(1) v True show ?thesis by auto
  next
    case False
    from Cons.IH [OF Cons.prems(1) rest] obtain m tm where m: "m \<in> set (b # xs)"
      "max_key_loop key b bv xs = Inr m" "key m = Inr tm"
      "\<forall>f \<in> set (b # xs). \<exists>t. key f = Inr t \<and> t \<le> tm"
      by blast
    from m(4) Cons.prems(1) have "bv \<le> tm" by auto
    with False have "v \<le> tm" by simp
    with m v False show ?thesis by auto
  qed
qed

lemma max_key_loop_unreadable:
  "\<forall>x \<in> set pre. \<exists>t. key x = Inr t \<Longrightarrow> key f = Inl e \<Longrightarrow>
     max_key_loop key b bv (pre @ f # post) = Inl e"
  for key :: "'a \<Rightarrow> error + 'k::linorder"
  by (induction pre arbitrary: b bv) auto

lemma max_key_readable:
  "xs \<noteq> [] \<Longrightarrow> \<forall>x \<in> set xs. \<exists>t. key x = Inr t \<Longrightarrow>
     \<exists>m \<in> set xs. \<exists>tm. max_key key xs = Inr m \<and> key m = Inr tm \<and>
        (\<forall>f \<in> set xs. \<exists>t. key f = Inr t \<and> t \<le> tm)"
  for key :: "'a \<Rightarrow> error + 'k::linorder"
proof (cases xs)
  case Nil
  assume "xs \<noteq> []"
  with Nil show ?thesis by simp
next
  case (Cons b ys)
  assume all: "\<forall>x \<in> set xs. \<exists>t. key x = Inr t"
  with Cons obtain bv where bv: "key b = Inr bv" by auto
  from all Cons have "\<forall>x \<in> set ys. \<exists>t. key x = Inr t" by simp
  from max_key_loop_readable [OF bv this] show ?thesis
    unfolding Cons using bv by simp
qed

lemma max_key_unreadable:
  "\<forall>x \<in> set pre. \<exists>t. key x = Inr t \<Longrightarrow> key f = Inl e \<Longrightarrow>
     max_key key (pre @ f # post) = Inl e"
  for key :: "'a \<Rightarrow> error + 'k::linorder"
proof (cases pre)
  case Nil
  assume "key f = Inl e"
  with Nil show ?thesis by simp
next
  case (Cons b ys)
  assume all: "\<forall>x \<in> set pre. \<exists>t. key x = Inr t" and f: "key f = Inl e"
  from all Cons obtain bv where bv: "key b = Inr bv" by auto
  from all Cons have "\<forall>x \<in> set ys. \<exists>t. key x = Inr t" by simp
  from max_key_loop_unreadable [OF this f] show ?thesis
    unfolding Cons using bv by simp
qed

text \<open>
  Claim C7, as the code has it. The locator keeps the entries of the listing that
  \<^verbatim>\<open>re.match\<close> accepts (a match at the start of the name). If none is kept it fails with
  \<^verbatim>\<open>FileNotFoundError\<close> and returns no path. If some are kept and the creation time of
  every kept entry can be read, it returns the joined path of a kept entry whose creation
  time no kept entry exceeds. If the creation time of a kept entry cannot be read, the
  error of the first such entry escapes and no path is returned.
\<close>

theorem get_latest_file_spec:
  "(filter (re_match pattern) files = [] \<longrightarrow>
      get_latest_file re_match getctime downloads_path files pattern
        = Inl (FileNotFoundError ''No files matching the pattern were found.'')) \<and>
   (filter (re_match pattern) files \<noteq> [] \<and>
    (\<forall>f \<in> set (filter (re_match pattern) files). \<exists>t. getctime (path_join downloads_path f) = Inr t) \<longrightarrow>
      (\<exists>m \<in> set (filter (re_match pattern) files). \<exists>tm.
         get_latest_file re_match getctime downloads_path files pattern
           = Inr (path_join downloads_path m) \<and>
         getctime (path_join downloads_path m) = Inr tm \<and>
         (\<forall>f \<in> set (filter (re_match pattern) files).
            \<exists>t. getctime (path_join downloads_path f) = Inr t \<and> t \<le> tm))) \<and>
   (\<forall>pre f post e.
      filter (re_match pattern) files = pre @ f # post \<and>
      (\<forall>x \<in> set pre. \<exists>t. getctime (path_join downloads_path x) = Inr t) \<and>
      getctime (path_join downloads_path f) = Inl e \<longrightarrow>
      get_latest_file re_match getctime downloads_path files pattern = Inl e)"
  for getctime :: "string \<Rightarrow> error + 'k::linorder"
proof (intro conjI impI allI)
  assume "filter (re_match pattern) files = []"
  then show "get_latest_file re_match getctime downloads_path files pattern
        = Inl (FileNotFoundError ''No files matching the pattern were found.'')"
    by (simp add: get_latest_file_def)
next
  let ?ms = "filter (re_match pattern) files"
  let ?key = "\<lambda>f. getctime (path_join downloads_path f)"
  assume a: "?ms \<noteq> [] \<and> (\<forall>f \<in> set ?ms. \<exists>t. ?key f = Inr t)"
  then have ne: "?ms \<noteq> []" and all: "\<forall>f \<in> set ?ms. \<exists>t. ?key f = Inr t" by blast+
  from max_key_readable [of ?ms ?key, OF ne all]
  obtain m tm where m: "m \<in> set ?ms" "max_key ?key ?ms = Inr m" "?key m = Inr tm"
    "\<forall>f \<in> set ?ms. \<exists>t. ?key f = Inr t \<and> t \<le> tm"
    by blast
  have "get_latest_file re_match getctime downloads_path files pattern = Inr (path_join downloads_path m)"
    using ne m(2) by (simp add: get_latest_file_def and_then_def)
  with m(1,3,4) show "\<exists>m \<in> set ?ms. \<exists>tm.
         get_latest_file re_match getctime downloads_path files pattern
           = Inr (path_join downloads_path m) \<and>
         ?key m = Inr tm \<and> (\<forall>f \<in> set ?ms. \<exists>t. ?key f = Inr t \<and> t \<le> tm)"
    by blast
next
  fix pre f post e
  let ?key = "\<lambda>f. getctime (path_join downloads_path f)"
  assume a: "filter (re_match pattern) files = pre @ f # post \<and>
      (\<forall>x \<in> set pre. \<exists>t. ?key x = Inr t) \<and> ?key f = Inl e"
  then have "max_key ?key (pre @ f # post) = Inl e"
    by (intro max_key_unreadable) blast+
  with a show "get_latest_file re_match getctime downloads_path files pattern = Inl e"
    by (simp add: get_latest_file_def and_then_def)
qed

text \<open>
  Three entries, two of them matching: the later of the two is returned, although the
  entry that does not match is later still; a pattern no entry matches gives the error.
\<close>

theorem get_latest_file_spec_witness:
  "filter (example_re_match ''alarms'') [''alarms_1.xlsx'', ''alarms_2.xlsx'', ''report.xlsx''] \<noteq> [] \<and>
   get_latest_file example_re_match example_getctime ''/dl''
       [''alarms_1.xlsx'', ''alarms_2.xlsx'', ''report.xlsx''] ''alarms''
     = Inr ''/dl/alarms_2.xlsx'' \<and>
   filter (example_re_match ''latency'') [''alarms_1.xlsx'', ''alarms_2.xlsx'', ''report.xlsx''] = [] \<and>
   get_latest_file example_re_match example_getctime ''/dl''
       [''alarms_1.xlsx'', ''alarms_2.xlsx'', ''report.xlsx''] ''latency''
     = Inl (FileNotFoundError ''No files matching the pattern were found.'')"
proof -
  let ?files = "[''alarms_1.xlsx'', ''alarms_2.xlsx'', ''report.xlsx'']"
  let ?ms = "filter (example_re_match ''alarms'') ?files"
  have ms: "?ms = [''alarms_1.xlsx'', ''alarms_2.xlsx'']"
    by (simp add: example_re_match_def)
  have t1: "example_getctime (path_join ''/dl'' ''alarms_1.xlsx'') = Inr 30"
    and t2: "example_getctime (path_join ''/dl'' ''alarms_2.xlsx'') = Inr 50"
    by (simp_all add: example_getctime_def path_join_def)
  have some: "?ms \<noteq> []" unfolding ms by simp
  have readable: "\<forall>f \<in> set ?ms. \<exists>t. example_getctime (path_join ''/dl'' f) = Inr t"
    unfolding ms using t1 t2 by simp
  have none: "filter (example_re_match ''latency'') ?files = []"
    by (simp add: example_re_match_def)
  from some readable get_latest_file_spec [where re_match = example_re_match and pattern = "''alarms''"
      and files = ?files and getctime = example_getctime and downloads_path = "''/dl''"]
  obtain m tm where m: "m \<in> set ?ms"
    "get_latest_file example_re_match example_getctime ''/dl'' ?files ''alarms'' = Inr (path_join ''/dl'' m)"
    "example_getctime (path_join ''/dl'' m) = Inr tm"
    "\<forall>f \<in> set ?ms. \<exists>t. example_getctime (path_join ''/dl'' f) = Inr t \<and> t \<le> tm"
    by blast
  from m(4) t2 have "50 \<le> tm" unfolding ms by simp
  with m(1,3) t1 t2 have "m = ''alarms_2.xlsx''" unfolding ms by auto
  with m(2) have "get_latest_file example_re_match example_getctime ''/dl'' ?files ''alarms''
      = Inr ''/dl/alarms_2.xlsx''"
    by (simp add: path_join_def)
  moreover from none get_latest_file_spec [where re_match = example_re_match and pattern = "''latency''"
      and files = ?files and getctime = example_getctime and downloads_path = "''/dl''"]
  have "get_latest_file example_re_match example_getctime ''/dl'' ?files ''latency''
      = Inl (FileNotFoundError ''No files matching the pattern were found.'')"
    by blast
  ultimately show ?thesis using some none by blast
qed

text \<open>
  Claim C7 as stated fails: a listing with two matching entries, the second a dangling
  link. An entry matches, and the locator returns no path: the error of reading the
  link's creation time escapes.
\<close>

theorem get_latest_file_unreadable_counterexample:
  "filter (example_re_match ''alarms'') [''alarms_1.xlsx'', ''alarms_link.xlsx''] \<noteq> [] \<and>
   get_latest_file example_re_match example_getctime ''/dl''
       [''alarms_1.xlsx'', ''alarms_link.xlsx''] ''alarms''
     = Inl (FileNotFoundError ''No such file or directory'')"
  by (simp add: get_latest_file_def example_re_match_def example_getctime_def path_join_def
        and_then_def)

section \<open>Properties of the cleaners\<close>

lemma filter_map_comp: "filter p (map f xs) = map f (filter (\<lambda>x. p (f x)) xs)"
  by (induction xs) auto


lemma coerce_numeric_NA: "coerce_numeric to_numeric c = NA \<longleftrightarrow> to_numeric c = None"
  by (simp add: coerce_numeric_def split: option.splits)



lemma data1_clean_valid:
  "data1_clean to_datetime df0 = Inr out \<Longrightarrow> r \<in> set out \<Longrightarrow>
     Node_Alias r \<noteq> None \<and> (\<exists>t. Alarm_Time r = Timestamp t)"
  by (auto simp: data1_clean_def Let_def coerce_datetime_def split: sum.splits option.splits)




lemma data2_clean_short:
  "length df0 < 5 \<Longrightarrow>
     data2_clean to_numeric df0 = Inl (LabelsNotFound (filter (\<lambda>i. length df0 \<le> i) [0, 1, 2, 3, 4]))"
proof -
  assume "length df0 < 5"
  then have "filter (\<lambda>i. length df0 \<le> i) [0, 1, 2, 3, 4] \<noteq> []"
    by (auto simp: filter_empty_conv)
  then show ?thesis by (simp add: data2_clean_def Let_def)
qed

lemma data2_clean_rows:
  "5 \<le> length df0 \<Longrightarrow>
     data2_clean to_numeric df0 =
       Inr (map (\<lambda>r. r\<lparr>Packet_Loss := coerce_numeric to_numeric (Packet_Loss r),
                        Availability := coerce_numeric to_numeric (Availability r),
                        Latency := coerce_numeric to_numeric (Latency r)\<rparr>)
              (filter (\<lambda>r. to_numeric (Packet_Loss r) \<noteq> None \<and>
                           to_numeric (Availability r) \<noteq> None \<and>
                           to_numeric (Latency r) \<noteq> None) (drop 5 df0)))"
proof -
  assume "5 \<le> length df0"
  then have "filter (\<lambda>i. length df0 \<le> i) [0, 1, 2, 3, 4] = []"
    by (auto simp: filter_empty_conv)
  then show ?thesis
    by (simp add: data2_clean_def Let_def filter_map_comp coerce_numeric_NA o_def)
qed

text \<open>
  Claim C6. On a report with its five leading rows the availability cleaner returns, in
  the order of the sheet, the rows after the first five for which \<^verbatim>\<open>to_numeric\<close> turns
  availability, latency and packet loss into numbers, with these numbers in the three
  columns: a row where one of the three fails is left out, and every row returned has
  three numbers. A report of fewer than five rows has no output: dropping the labels 0 to
  4 raises \<^verbatim>\<open>KeyError\<close>.
\<close>

theorem data2_clean_spec:
  "(case data2_clean to_numeric df0 of
      Inl e \<Rightarrow> length df0 < 5
    | Inr out \<Rightarrow>
        5 \<le> length df0 \<and>
        out = map (\<lambda>r. r\<lparr>Packet_Loss := coerce_numeric to_numeric (Packet_Loss r),
                         Availability := coerce_numeric to_numeric (Availability r),
                         Latency := coerce_numeric to_numeric (Latency r)\<rparr>)
                (filter (\<lambda>r. to_numeric (Packet_Loss r) \<noteq> None \<and>
                             to_numeric (Availability r) \<noteq> None \<and>
                             to_numeric (Latency r) \<noteq> None) (drop 5 df0)) \<and>
        (\<forall>r \<in> set out. \<exists>a l p. Availability r = Float a \<and> Latency r = Float l \<and> Packet_Loss r = Float p))"
proof (cases "length df0 < 5")
  case True
  then show ?thesis by (simp add: data2_clean_short)
next
  case False
  then have "5 \<le> length df0" by simp
  from data2_clean_rows [OF this, of to_numeric] False show ?thesis
    by (auto simp: coerce_numeric_def)
qed

text \<open>
  Five leading rows and three data rows, the second with a text for its availability:
  the first and the third are returned in their order, their values as floats.
\<close>

theorem data2_clean_spec_witness:
  "data2_clean example_to_numeric example_avail_sheet =
     Inr [\<lparr>Node_Alias = Some ''N1'', IP_Address = Some ''10.0.0.1'', Availability = Float 99, Latency = Float 5, Packet_Loss = Float 0\<rparr>,
          \<lparr>Node_Alias = Some ''N1'', IP_Address = Some ''10.0.0.1'', Availability = Float 98, Latency = Float 6, Packet_Loss = Float 0\<rparr>] \<and>
   5 \<le> length example_avail_sheet"
proof -
  have eq: "data2_clean example_to_numeric example_avail_sheet =
     Inr [\<lparr>Node_Alias = Some ''N1'', IP_Address = Some ''10.0.0.1'', Availability = Float 99, Latency = Float 5, Packet_Loss = Float 0\<rparr>,
          \<lparr>Node_Alias = Some ''N1'', IP_Address = Some ''10.0.0.1'', Availability = Float 98, Latency = Float 6, Packet_Loss = Float 0\<rparr>]"
    by (simp add: data2_clean_def Let_def example_avail_sheet_def example_header_row_def
          example_to_numeric_def coerce_numeric_def)
  from data2_clean_spec [where to_numeric = example_to_numeric and ?df0.0 = example_avail_sheet] show ?thesis
    unfolding eq by simp
qed

section \<open>Properties of the join and of the aggregation\<close>

text \<open>The rows the join makes of one left row \<open>l\<close> with key \<open>k\<close>.\<close>

lemma map_fst_join_row:
  "map fst (case filter (\<lambda>r. IP_Address r = k) V of
              [] \<Rightarrow> [(l, NA)] | ms \<Rightarrow> map (\<lambda>r. (l, Availability r)) ms)
     = replicate (max 1 (length (filter (\<lambda>r. IP_Address r = k) V))) l"
  by (cases "filter (\<lambda>r. IP_Address r = k) V") (simp_all add: map_replicate_const o_def)



lemma merged_df_returns:
  "merged_df ld A rd V = Inr merged \<Longrightarrow>
     \<not> (ld = Float64_dtype \<and> A \<noteq> [] \<and> has_text V \<or> rd = Float64_dtype \<and> V \<noteq> [] \<and> has_text A) \<and>
     merged = concat (map (\<lambda>l.
        case filter (\<lambda>r. IP_Address r = IP_Address l) V of
          [] \<Rightarrow> [(l, NA)]
        | ms \<Rightarrow> map (\<lambda>r. (l, Availability r)) ms) A)"
  by (auto simp: merged_df_def split: if_splits)

lemma map_fst_merged_df:
  "merged_df ld A rd V = Inr merged \<Longrightarrow>
     map fst merged =
       concat (map (\<lambda>l. replicate (max 1 (length (filter (\<lambda>r. IP_Address r = IP_Address l) V))) l) A)"
  by (drule merged_df_returns) (simp add: map_concat o_def map_fst_join_row)


lemma merged_df_row:
  "merged_df ld A rd V = Inr merged \<Longrightarrow> j \<in> set merged \<Longrightarrow> fst j \<in> set A"
proof -
  assume "merged_df ld A rd V = Inr merged" and j: "j \<in> set merged"
  from map_fst_merged_df [OF this(1)] j have "fst j \<in> set (concat (map (\<lambda>l. replicate
      (max 1 (length (filter (\<lambda>r. IP_Address r = IP_Address l) V))) l) A))"
    by (metis image_eqI set_map)
  then show ?thesis by (auto split: if_splits)
qed






lemma nunique_card: "nunique vs = int (card (set vs - {NA}))"
proof -
  have "set (filter (\<lambda>v. v \<noteq> NA) vs) = set vs - {NA}" by auto
  then show ?thesis by (simp add: nunique_def length_remdups_card_conv)
qed

lemma nunique_positive: "v \<in> set vs \<Longrightarrow> v \<noteq> NA \<Longrightarrow> 0 < nunique vs"
  by (auto simp: nunique_def filter_empty_conv)

lemma group_keys_set:
  "set (concat (map (\<lambda>j. case Node_Alias (fst j) of None \<Rightarrow> [] | Some k \<Rightarrow> [k]) merged))
     = {k. \<exists>j \<in> set merged. Node_Alias (fst j) = Some k}"
  by (force split: option.splits)

lemma downtime_count_aliases:
  "map Node_Alias (downtime_count merged) =
     map Some (sort (remdups (concat
       (map (\<lambda>j. case Node_Alias (fst j) of None \<Rightarrow> [] | Some k \<Rightarrow> [k]) merged))))"
  by (simp add: downtime_count_def o_def)

lemma downtime_count_row:
  "s \<in> set (downtime_count merged) \<Longrightarrow>
     (\<exists>j \<in> set merged. Node_Alias (fst j) = Node_Alias s) \<and>
     Downtime_Count s = nunique (map (\<lambda>j. Alarm_Time (fst j))
                                  (filter (\<lambda>j. Node_Alias (fst j) = Node_Alias s) merged))"
  by (force simp: downtime_count_def group_keys_set)

text \<open>
  Claim C1. Whatever frame of joined rows the aggregation is given, and so for the frame
  the join returns for any alarms and any availability data, the summary has exactly one
  row for each node alias that occurs among the joined rows (a missing alias is no alias
  and forms no group), and the downtime count of a row is the number of distinct alarm
  times among the joined rows of its alias (a missing time is no value and is not
  counted): the size of a set of values, not the number of rows.
\<close>

theorem downtime_count_spec:
  "distinct (map Node_Alias (downtime_count merged)) \<and>
   set (map Node_Alias (downtime_count merged))
     = {Node_Alias (fst j) | j. j \<in> set merged} - {None} \<and>
   (\<forall>s \<in> set (downtime_count merged).
      Downtime_Count s =
        int (card ({Alarm_Time (fst j) | j.
                      j \<in> set merged \<and> Node_Alias (fst j) = Node_Alias s} - {NA})))"
proof -
  have d: "distinct (map Node_Alias (downtime_count merged))"
    by (simp add: downtime_count_aliases distinct_map)
  have k: "set (map Node_Alias (downtime_count merged)) = {Node_Alias (fst j) | j. j \<in> set merged} - {None}"
    unfolding downtime_count_aliases by (force simp: group_keys_set image_iff)
  have c: "Downtime_Count s =
        int (card ({Alarm_Time (fst j) | j. j \<in> set merged \<and> Node_Alias (fst j) = Node_Alias s} - {NA}))"
    if "s \<in> set (downtime_count merged)" for s
  proof -
    have "set (map (\<lambda>j. Alarm_Time (fst j)) (filter (\<lambda>j. Node_Alias (fst j) = Node_Alias s) merged))
            = {Alarm_Time (fst j) | j. j \<in> set merged \<and> Node_Alias (fst j) = Node_Alias s}"
      by force
    with downtime_count_row [OF that] show ?thesis
      by (simp add: nunique_card)
  qed
  from d k c show ?thesis by blast
qed

text \<open>
  Two alarms of node N1 with one timestamp and one alarm of node N0, joined with two
  availability rows for the address of N1: N1 has four joined rows and the count 1.
\<close>

theorem downtime_count_spec_witness:
  "merged_df Object_dtype example_alarms Object_dtype example_availability = Inr example_merged \<and>
   downtime_count example_merged =
     [\<lparr>Node_Alias = Some ''N0'', Downtime_Count = 1\<rparr>, \<lparr>Node_Alias = Some ''N1'', Downtime_Count = 1\<rparr>] \<and>
   length (filter (\<lambda>j. Node_Alias (fst j) = Some ''N1'') example_merged) = 4 \<and>
   int (card ({Alarm_Time (fst j) | j. j \<in> set example_merged \<and> Node_Alias (fst j) = Some ''N1''} - {NA})) = 1"
proof -
  have join: "merged_df Object_dtype example_alarms Object_dtype example_availability = Inr example_merged"
    by (simp add: merged_df_def example_alarms_def example_availability_def example_merged_def)
  have eq: "downtime_count example_merged =
     [\<lparr>Node_Alias = Some ''N0'', Downtime_Count = 1\<rparr>, \<lparr>Node_Alias = Some ''N1'', Downtime_Count = 1\<rparr>]"
    by (simp add: downtime_count_def nunique_def example_merged_def)
  have rows: "length (filter (\<lambda>j. Node_Alias (fst j) = Some ''N1'') example_merged) = 4"
    by (simp add: example_merged_def)
  from downtime_count_spec [where merged = example_merged]
  have "\<forall>s \<in> set (downtime_count example_merged).
      Downtime_Count s =
        int (card ({Alarm_Time (fst j) | j.
                      j \<in> set example_merged \<and> Node_Alias (fst j) = Node_Alias s} - {NA}))"
    by blast
  then have "int (card ({Alarm_Time (fst j) | j.
                 j \<in> set example_merged \<and> Node_Alias (fst j) = Some ''N1''} - {NA})) = 1"
    unfolding eq by simp
  with join eq rows show ?thesis by blast
qed

text \<open>
  Claim C9. When the alarms are an output of the alarm cleaner and the join returns, every
  row of the summary has a downtime count greater than zero, whatever the availability
  frame and the dtypes of the key columns are: its group holds a joined row, whose alarm
  row is a cleaned row and so has a timestamp. (Where the cleaner or the join raises
  there is no summary.)
\<close>

theorem downtime_count_positive:
  "data1_clean to_datetime df0 = Inr alarms \<Longrightarrow>
   merged_df left_dtype alarms right_dtype availability = Inr merged \<Longrightarrow>
   \<forall>s \<in> set (downtime_count merged). 0 < Downtime_Count s"
proof
  fix s
  assume clean: "data1_clean to_datetime df0 = Inr alarms"
    and join: "merged_df left_dtype alarms right_dtype availability = Inr merged"
  assume "s \<in> set (downtime_count merged)"
  from downtime_count_row [OF this] obtain j where j: "j \<in> set merged" "Node_Alias (fst j) = Node_Alias s"
    and c: "Downtime_Count s = nunique (map (\<lambda>j. Alarm_Time (fst j))
                                  (filter (\<lambda>j. Node_Alias (fst j) = Node_Alias s) merged))"
    by blast
  from merged_df_row [OF join j(1)] have "fst j \<in> set alarms" .
  from data1_clean_valid [OF clean this] have "Alarm_Time (fst j) \<noteq> NA" by auto
  with j have "0 < nunique (map (\<lambda>j. Alarm_Time (fst j))
                           (filter (\<lambda>j. Node_Alias (fst j) = Node_Alias s) merged))"
    by (intro nunique_positive [of "Alarm_Time (fst j)"]) force+
  with c show "0 < Downtime_Count s" by simp
qed

text \<open>The example sheets through the whole pipeline: the summary is not empty and the count of N1 is 1.\<close>

theorem downtime_count_positive_witness:
  "data1_clean example_to_datetime example_alarm_sheet = Inr example_alarms \<and>
   merged_df Object_dtype example_alarms Object_dtype example_availability = Inr example_merged \<and>
   \<lparr>Node_Alias = Some ''N1'', Downtime_Count = 1\<rparr> \<in> set (downtime_count example_merged) \<and>
   0 < Downtime_Count \<lparr>Node_Alias = Some ''N1'', Downtime_Count = 1\<rparr>"
proof -
  have clean: "data1_clean example_to_datetime example_alarm_sheet = Inr example_alarms"
    by (simp add: data1_clean_def Let_def example_alarm_sheet_def example_to_datetime_def
          example_conv_def coerce_datetime_def example_alarms_def)
  have join: "merged_df Object_dtype example_alarms Object_dtype example_availability = Inr example_merged"
    by (simp add: merged_df_def example_alarms_def example_availability_def example_merged_def)
  have m: "\<lparr>Node_Alias = Some ''N1'', Downtime_Count = 1\<rparr> \<in> set (downtime_count example_merged)"
    by (simp add: downtime_count_def nunique_def example_merged_def)
  from downtime_count_positive [OF clean join] m
  have "0 < Downtime_Count \<lparr>Node_Alias = Some ''N1'', Downtime_Count = 1\<rparr>" by blast
  with clean join m show ?thesis by blast
qed

text \<open>
  The example sheets through the module-level code, and an alarm sheet without any IP
  address against the same availability sheet: the join raises and there is no table.
\<close>

lemma pipeline_example:
  "pipeline example_to_datetime example_to_numeric example_alarm_sheet example_avail_sheet =
     Inr [\<lparr>Node_Alias = Some ''N0'', Downtime_Count = 1\<rparr>, \<lparr>Node_Alias = Some ''N1'', Downtime_Count = 1\<rparr>]"
  by (simp add: pipeline_def and_then_def data1_clean_def data2_clean_def merged_df_def
        downtime_count_def nunique_def key_dtype_def has_text_def Let_def
        example_to_datetime_def example_conv_def example_to_numeric_def coerce_datetime_def
        coerce_numeric_def example_alarm_sheet_def example_avail_sheet_def example_header_row_def)

lemma pipeline_example_no_ip:
  "pipeline example_to_datetime example_to_numeric example_alarm_sheet_no_ip example_avail_sheet =
     Inl ValueError"
  by (simp add: pipeline_def and_then_def data1_clean_def data2_clean_def merged_df_def
        key_dtype_def has_text_def Let_def
        example_to_datetime_def example_conv_def example_to_numeric_def coerce_datetime_def
        coerce_numeric_def example_alarm_sheet_no_ip_def example_avail_sheet_def example_header_row_def)

section \<open>Properties of the filter callback\<close>

lemma select_rows_map: "map fst (filter snd (zip xs (map p xs))) = filter p xs"
  by (induction xs) auto

lemma and_masks_map:
  "map (\<lambda>(x, y). x \<and> y) (zip (map p xs) (map q xs)) = map (\<lambda>x. p x \<and> q x) xs"
  by (induction xs) auto

lemma count_le_mask:
  "and_then (getitem_column ''Downtime Count'' df) (\<lambda>c. series_le c k)
     = Inr (map (\<lambda>r. Downtime_Count r \<le> k) df)"
  by (simp add: and_then_def getitem_column_def series_le_def o_def)

lemma count_gt_mask:
  "and_then (getitem_column ''Downtime Count'' df) (\<lambda>c. series_gt c k)
     = Inr (map (\<lambda>r. k < Downtime_Count r) df)"
  by (simp add: and_then_def getitem_column_def series_gt_def o_def)

text \<open>The summary frame has no column \<^verbatim>\<open>'Alarm Time'\<close>: the lookup fails before any comparison.\<close>

lemma alarm_time_mask:
  "and_then (getitem_column ''Alarm Time'' df) date_mask = Inl (KeyError ''Alarm Time'')"
  by (simp add: and_then_def getitem_column_def)

lemma getitem_mask_le:
  "getitem_mask (\<lambda>df. and_then (getitem_column ''Downtime Count'' df) (\<lambda>c. series_le c k)) f s
     = (Inr (next_free s), new_frame (filter (\<lambda>r. Downtime_Count r \<le> k) (heap s f)) s)"
  by (simp add: getitem_mask_def count_le_mask select_rows_map)

lemma getitem_mask_gt:
  "getitem_mask (\<lambda>df. and_then (getitem_column ''Downtime Count'' df) (\<lambda>c. series_gt c k)) f s
     = (Inr (next_free s), new_frame (filter (\<lambda>r. k < Downtime_Count r) (heap s f)) s)"
  by (simp add: getitem_mask_def count_gt_mask select_rows_map)

lemma getitem_mask_between:
  "getitem_mask (\<lambda>df. mask_and
        (and_then (getitem_column ''Downtime Count'' df) (\<lambda>c. series_gt c lo))
        (and_then (getitem_column ''Downtime Count'' df) (\<lambda>c. series_le c hi))) f s
     = (Inr (next_free s),
        new_frame (filter (\<lambda>r. lo < Downtime_Count r \<and> Downtime_Count r \<le> hi) (heap s f)) s)"
  unfolding count_le_mask count_gt_mask
  by (simp add: getitem_mask_def mask_and_def and_then_def and_masks_map select_rows_map)

lemma getitem_mask_alarm_time:
  "getitem_mask (\<lambda>df. and_then (getitem_column ''Alarm Time'' df) date_mask) f s
     = (Inl (KeyError ''Alarm Time''), s)"
  by (simp add: getitem_mask_def alarm_time_mask)

lemma heap_new_frame: "heap (new_frame df s) (next_free s) = df"
  by (simp add: new_frame_def)

text \<open>The callback, branch by branch of the bucket.\<close>

lemma filter_data_unclicked:
  "filter_data date_mask s None start_date end_date v = (Inr (heap s (downtime_count_var s)), s)"
  by (simp add: filter_data_def)

lemma filter_data_1_3:
  "filter_data date_mask s (Some n) start_date end_date (Some ''1-3'') =
     (let s1 = new_frame (filter (\<lambda>r. Downtime_Count r \<le> 3) (heap s (downtime_count_var s))) s in
      if truthy start_date \<and> truthy end_date then (Inl (KeyError ''Alarm Time''), s1)
      else (Inr (filter (\<lambda>r. Downtime_Count r \<le> 3) (heap s (downtime_count_var s))), s1))"
  by (simp add: filter_data_def Let_def getitem_mask_le getitem_mask_alarm_time heap_new_frame)

lemma filter_data_4_5:
  "filter_data date_mask s (Some n) start_date end_date (Some ''4-5'') =
     (let s1 = new_frame (filter (\<lambda>r. 3 < Downtime_Count r \<and> Downtime_Count r \<le> 5)
                            (heap s (downtime_count_var s))) s in
      if truthy start_date \<and> truthy end_date then (Inl (KeyError ''Alarm Time''), s1)
      else (Inr (filter (\<lambda>r. 3 < Downtime_Count r \<and> Downtime_Count r \<le> 5)
                   (heap s (downtime_count_var s))), s1))"
  by (simp add: filter_data_def Let_def getitem_mask_between getitem_mask_alarm_time heap_new_frame)

lemma filter_data_gt5:
  "filter_data date_mask s (Some n) start_date end_date (Some ''>5'') =
     (let s1 = new_frame (filter (\<lambda>r. 5 < Downtime_Count r) (heap s (downtime_count_var s))) s in
      if truthy start_date \<and> truthy end_date then (Inl (KeyError ''Alarm Time''), s1)
      else (Inr (filter (\<lambda>r. 5 < Downtime_Count r) (heap s (downtime_count_var s))), s1))"
  by (simp add: filter_data_def Let_def getitem_mask_gt getitem_mask_alarm_time heap_new_frame)

lemma filter_data_gt10:
  "filter_data date_mask s (Some n) start_date end_date (Some ''>10'') =
     (let s1 = new_frame (filter (\<lambda>r. 10 < Downtime_Count r) (heap s (downtime_count_var s))) s in
      if truthy start_date \<and> truthy end_date then (Inl (KeyError ''Alarm Time''), s1)
      else (Inr (filter (\<lambda>r. 10 < Downtime_Count r) (heap s (downtime_count_var s))), s1))"
  by (simp add: filter_data_def Let_def getitem_mask_gt getitem_mask_alarm_time heap_new_frame)

lemma filter_data_other:
  "v \<noteq> Some ''1-3'' \<Longrightarrow> v \<noteq> Some ''4-5'' \<Longrightarrow> v \<noteq> Some ''>5'' \<Longrightarrow> v \<noteq> Some ''>10'' \<Longrightarrow>
   filter_data date_mask s (Some n) start_date end_date v =
     (if truthy start_date \<and> truthy end_date then (Inl (KeyError ''Alarm Time''), s)
      else (Inr (heap s (downtime_count_var s)), s))"
  by (simp add: filter_data_def Let_def getitem_mask_alarm_time)

lemma bucket_cases:
  obtains "v = Some ''1-3''" | "v = Some ''4-5''" | "v = Some ''>5''" | "v = Some ''>10''"
    | "v \<noteq> Some ''1-3''" "v \<noteq> Some ''4-5''" "v \<noteq> Some ''>5''" "v \<noteq> Some ''>10''"
  by blast

text \<open>Whatever the arguments, a call leaves the state alone or adds one frame at the free address.\<close>

lemma filter_data_state:
  "snd (filter_data date_mask s n_clicks start_date end_date v) = s \<or>
   (\<exists>df. snd (filter_data date_mask s n_clicks start_date end_date v) = new_frame df s)"
proof (cases n_clicks)
  case None
  then show ?thesis by (simp add: filter_data_unclicked)
next
  case (Some n)
  show ?thesis
  proof (cases v rule: bucket_cases)
    case 1 then show ?thesis unfolding Some by (auto simp: filter_data_1_3 Let_def)
  next
    case 2 then show ?thesis unfolding Some by (auto simp: filter_data_4_5 Let_def)
  next
    case 3 then show ?thesis unfolding Some by (auto simp: filter_data_gt5 Let_def)
  next
    case 4 then show ?thesis unfolding Some by (auto simp: filter_data_gt10 Let_def)
  next
    case 5 then show ?thesis unfolding Some by (simp add: filter_data_other)
  qed
qed

lemma filter_data_dated:
  "truthy start_date \<Longrightarrow> truthy end_date \<Longrightarrow>
   fst (filter_data date_mask s (Some n) start_date end_date v) = Inl (KeyError ''Alarm Time'')"
proof -
  assume t: "truthy start_date" "truthy end_date"
  show ?thesis
  proof (cases v rule: bucket_cases)
    case 1 then show ?thesis using t by (simp add: filter_data_1_3 Let_def)
  next
    case 2 then show ?thesis using t by (simp add: filter_data_4_5 Let_def)
  next
    case 3 then show ?thesis using t by (simp add: filter_data_gt5 Let_def)
  next
    case 4 then show ?thesis using t by (simp add: filter_data_gt10 Let_def)
  next
    case 5 then show ?thesis using t by (simp add: filter_data_other)
  qed
qed

text \<open>
  Claim C3. After a click and without a date range, the callback returns exactly the rows
  of the table that satisfy the predicate of the bucket, in the order of the table:
  \<^verbatim>\<open>'1-3'\<close> the rows with count at most 3, \<^verbatim>\<open>'4-5'\<close> the rows with count above 3 and at most
  5, \<^verbatim>\<open>'>5'\<close> the rows with count above 5, \<^verbatim>\<open>'>10'\<close> the rows with count above 10; any other
  value, the absent one included, returns the whole table.
\<close>

theorem bucket_filter_spec:
  "\<not> (truthy start_date \<and> truthy end_date) \<Longrightarrow>
   fst (filter_data date_mask s (Some n) start_date end_date (Some ''1-3''))
     = Inr (filter (\<lambda>r. Downtime_Count r \<le> 3) (heap s (downtime_count_var s))) \<and>
   fst (filter_data date_mask s (Some n) start_date end_date (Some ''4-5''))
     = Inr (filter (\<lambda>r. 3 < Downtime_Count r \<and> Downtime_Count r \<le> 5) (heap s (downtime_count_var s))) \<and>
   fst (filter_data date_mask s (Some n) start_date end_date (Some ''>5''))
     = Inr (filter (\<lambda>r. 5 < Downtime_Count r) (heap s (downtime_count_var s))) \<and>
   fst (filter_data date_mask s (Some n) start_date end_date (Some ''>10''))
     = Inr (filter (\<lambda>r. 10 < Downtime_Count r) (heap s (downtime_count_var s))) \<and>
   (v \<notin> {Some ''1-3'', Some ''4-5'', Some ''>5'', Some ''>10''} \<longrightarrow>
      fst (filter_data date_mask s (Some n) start_date end_date v) = Inr (heap s (downtime_count_var s)))"
proof -
  assume d: "\<not> (truthy start_date \<and> truthy end_date)"
  have "fst (filter_data date_mask s (Some n) start_date end_date v) = Inr (heap s (downtime_count_var s))"
    if "v \<notin> {Some ''1-3'', Some ''4-5'', Some ''>5'', Some ''>10''}"
    using that d by (simp add: filter_data_other)
  with d show ?thesis
    by (simp add: filter_data_1_3 filter_data_4_5 filter_data_gt5 filter_data_gt10 Let_def)
qed

text \<open>The table A 2, B 4, C 6, D 11 under the four buckets and under a value that is none of them.\<close>

theorem bucket_filter_spec_witness:
  "\<not> (truthy None \<and> truthy None) \<and>
   fst (filter_data example_date_mask (init_state example_table) (Some 1) None None (Some ''1-3''))
     = Inr [\<lparr>Node_Alias = Some ''A'', Downtime_Count = 2\<rparr>] \<and>
   fst (filter_data example_date_mask (init_state example_table) (Some 1) None None (Some ''4-5''))
     = Inr [\<lparr>Node_Alias = Some ''B'', Downtime_Count = 4\<rparr>] \<and>
   fst (filter_data example_date_mask (init_state example_table) (Some 1) None None (Some ''>5''))
     = Inr [\<lparr>Node_Alias = Some ''C'', Downtime_Count = 6\<rparr>, \<lparr>Node_Alias = Some ''D'', Downtime_Count = 11\<rparr>] \<and>
   fst (filter_data example_date_mask (init_state example_table) (Some 1) None None (Some ''>10''))
     = Inr [\<lparr>Node_Alias = Some ''D'', Downtime_Count = 11\<rparr>] \<and>
   fst (filter_data example_date_mask (init_state example_table) (Some 1) None None (Some ''6-9''))
     = Inr example_table"
  using bucket_filter_spec [where start_date = None and end_date = None
      and date_mask = example_date_mask and s = "init_state example_table" and n = 1
      and v = "Some ''6-9''"]
  by (simp add: truthy_def init_state_def example_table_def)

text \<open>
  Claim C4. When both dates are given (not \<^verbatim>\<open>None\<close> and not empty), the date step never
  restricts the summaries by date: after a click it is reached and raises \<^verbatim>\<open>KeyError\<close>,
  because the table has no column \<^verbatim>\<open>'Alarm Time'\<close>, whatever the bucket and the dates are;
  without a click it is not reached and the whole table is returned.
\<close>

theorem filter_data_dates:
  "truthy start_date \<Longrightarrow> truthy end_date \<Longrightarrow>
   fst (filter_data date_mask s n_clicks start_date end_date v) =
     (case n_clicks of
        None \<Rightarrow> Inr (heap s (downtime_count_var s))
      | Some n \<Rightarrow> Inl (KeyError ''Alarm Time''))"
  by (cases n_clicks) (simp_all add: filter_data_unclicked filter_data_dated)

theorem filter_data_dates_witness:
  "truthy (Some ''2024-01-01'') \<and> truthy (Some ''2024-01-31'') \<and>
   fst (filter_data example_date_mask (init_state example_table) (Some 1)
          (Some ''2024-01-01'') (Some ''2024-01-31'') (Some ''1-3''))
     = Inl (KeyError ''Alarm Time'')"
  using filter_data_dates [where start_date = "Some ''2024-01-01''" and end_date = "Some ''2024-01-31''"
      and date_mask = example_date_mask and s = "init_state example_table" and n_clicks = "Some 1"
      and v = "Some ''1-3''"]
  by (simp add: truthy_def)

text \<open>
  Claim C8. In a state where the table is an allocated frame, a call of the callback, with
  any click count, bucket and dates, leaves the name \<^verbatim>\<open>downtime_count\<close> bound to the same
  object and leaves that object, and every other frame allocated before the call, as it
  was: what the call builds, it builds at a fresh address.
\<close>

theorem filter_data_frame:
  "downtime_count_var s < next_free s \<Longrightarrow>
   downtime_count_var (snd (filter_data date_mask s n_clicks start_date end_date v)) = downtime_count_var s \<and>
   heap (snd (filter_data date_mask s n_clicks start_date end_date v)) (downtime_count_var s)
     = heap s (downtime_count_var s) \<and>
   (\<forall>a < next_free s. heap (snd (filter_data date_mask s n_clicks start_date end_date v)) a = heap s a)"
  using filter_data_state [of date_mask s n_clicks start_date end_date v]
  by (auto simp: new_frame_def)

theorem filter_data_frame_witness:
  "downtime_count_var (init_state example_table) < next_free (init_state example_table) \<and>
   heap (snd (filter_data example_date_mask (init_state example_table) (Some 1) None None (Some ''1-3'')))
        (downtime_count_var (init_state example_table))
     = example_table \<and>
   heap (snd (filter_data example_date_mask (init_state example_table) (Some 1) None None (Some ''1-3''))) 1
     = [\<lparr>Node_Alias = Some ''A'', Downtime_Count = 2\<rparr>]"
proof -
  have wf: "downtime_count_var (init_state example_table) < next_free (init_state example_table)"
    by (simp add: init_state_def)
  have new: "heap (snd (filter_data example_date_mask (init_state example_table) (Some 1) None None (Some ''1-3''))) 1
     = [\<lparr>Node_Alias = Some ''A'', Downtime_Count = 2\<rparr>]"
    by (simp add: filter_data_1_3 Let_def truthy_def new_frame_def init_state_def example_table_def)
  from filter_data_frame [OF wf, where date_mask = example_date_mask and n_clicks = "Some 1"
      and start_date = None and end_date = None and v = "Some ''1-3''"]
  have "heap (snd (filter_data example_date_mask (init_state example_table) (Some 1) None None (Some ''1-3'')))
        (downtime_count_var (init_state example_table))
     = heap (init_state example_table) (downtime_count_var (init_state example_table))"
    by blast
  then have "heap (snd (filter_data example_date_mask (init_state example_table) (Some 1) None None (Some ''1-3'')))
        (downtime_count_var (init_state example_table)) = example_table"
    by (simp add: init_state_def)
  with wf new show ?thesis by blast
qed

text \<open>
  Claim C10. A call without a click count returns the whole table, whatever the dates and
  the bucket are.
\<close>

theorem filter_data_no_click:
  "fst (filter_data date_mask s None start_date end_date v) = Inr (heap s (downtime_count_var s))"
  by (simp add: filter_data_unclicked)

theorem filter_data_no_click_witness:
  "fst (filter_data example_date_mask (init_state example_table) None
          (Some ''2024-01-01'') (Some ''2024-01-31'') (Some ''>10''))
     = Inr example_table"
  using filter_data_no_click [where date_mask = example_date_mask and s = "init_state example_table"
      and start_date = "Some ''2024-01-01''" and end_date = "Some ''2024-01-31''" and v = "Some ''>10''"]
  by (simp add: init_state_def)

end
